theory Spec2Isabelle
  imports Main "HOL-Library.AList"
begin

section \<open>Values, errors, warnings\<close>

text \<open>
  A shallow embedding of \<^verbatim>\<open>internal/hcl/parser.go\<close>: the options of the Parser, its
  constructor \<^verbatim>\<open>New\<close>, \<^verbatim>\<open>ParseDirectory\<close>, \<^verbatim>\<open>parseDirectoryFiles\<close>, \<^verbatim>\<open>loadVars\<close>,
  \<^verbatim>\<open>loadAndCombineVars\<close>, \<^verbatim>\<open>loadVarFile\<close> and \<^verbatim>\<open>loadDirectory\<close>.

  \<^verbatim>\<open>cty.Value\<close> is a type of the go-cty library; the constructors below are the values the
  parser itself builds (\<^verbatim>\<open>cty.StringVal\<close>) and the kinds an evaluated attribute may have.
\<close>

datatype cty_value =
    StringVal string
  | NumberVal int
  | BoolVal bool
  | TupleVal "cty_value list"
  | DynamicVal
  | NilVal

text \<open>
  A Go \<^verbatim>\<open>map[string]cty.Value\<close> is an association list: a write \<^verbatim>\<open>m[k] = v\<close> is
  \<^const>\<open>AList.update\<close>, a \<^verbatim>\<open>range\<close> loop visits the pairs in the order of the list (Go leaves
  the order unspecified), and \<^const>\<open>map_of\<close> reads the mapping. A Go map holds every key once:
  \<open>distinct (map fst m)\<close>.
\<close>

type_synonym vars = "(string \<times> cty_value) list"

datatype severity = DiagError | DiagWarning

type_synonym diagnostics = "(severity \<times> string) list"

definition HasErrors :: "diagnostics \<Rightarrow> bool" where
  "HasErrors diag = list_ex (\<lambda>d. fst d = DiagError) diag"

text \<open>
  The errors the parser returns. \<open>OSError\<close>, \<open>RemoteError\<close>, \<open>BlockError\<close>, \<open>ModuleError\<close> and
  \<open>EvaluationError\<close> come from outside this file; \<open>DiagnosticsError\<close> is a \<^verbatim>\<open>hcl.Diagnostics\<close>
  returned as an error; the others are built here with \<^verbatim>\<open>fmt.Errorf\<close> and \<^verbatim>\<open>errors.New\<close>.
\<close>

datatype error =
    OSError string
  | RemoteError string
  | BlockError string
  | ModuleError string
  | EvaluationError string
  | DiagnosticsError diagnostics
  | CouldNotReadFile string error
  | FailedToLoadTFVars error
  | NoValidTerraformFiles
  | ErrorLoadingModules error
  | ErrorWorkingDirectory error

text \<open>The calls of \<^verbatim>\<open>log.Warnf\<close>, one constructor for each format string.\<close>

datatype warning =
    TFVarFileDoesNotExist string
  | CouldNotLoadRemoteVars error
  | CouldNotLoadAutoVarFile string error
  | SkippingFileBlocks error
  | SkippingFileParse string diagnostics

section \<open>The store\<close>

text \<open>
  Go maps are references: \<^verbatim>\<open>combinedVars := p.tfEnvVars\<close> copies the reference, not the
  map. The store holds the maps by address, the warnings logged so far and the messages
  sent to the warning sink.
\<close>

type_synonym addr = nat

record state =
  heap :: "addr \<Rightarrow> vars"
  nextAddr :: addr
  logged :: "warning list"
  written :: "string list"

definition make_map :: "state \<Rightarrow> addr \<times> state" where
  "make_map s =
     (nextAddr s, s\<lparr>heap := (heap s)(nextAddr s := []), nextAddr := Suc (nextAddr s)\<rparr>)"

definition map_store :: "addr \<Rightarrow> string \<Rightarrow> cty_value \<Rightarrow> state \<Rightarrow> state" where
  "map_store a k v s = s\<lparr>heap := (heap s)(a := AList.update k v (heap s a))\<rparr>"

text \<open>\<^verbatim>\<open>for k, v := range src { dst[k] = v }\<close>\<close>

definition range_store :: "vars \<Rightarrow> addr \<Rightarrow> state \<Rightarrow> state" where
  "range_store src a s = fold (\<lambda>(k, v). map_store a k v) src s"

definition Warnf :: "warning \<Rightarrow> state \<Rightarrow> state" where
  "Warnf w s = s\<lparr>logged := logged s @ [w]\<rparr>"

section \<open>The world outside the file\<close>

text \<open>
  The operating system as the parser calls it. \<open>'src\<close> is the content of a file.
  \<^verbatim>\<open>os.Stat\<close> gives its error only; \<^verbatim>\<open>os.ReadDir\<close> gives the names of the entries it could
  read (sorted by name) together with its error; \<^verbatim>\<open>ioutil.ReadDir\<close> gives the name and
  \<^verbatim>\<open>IsDir\<close> of every entry, or an error.
\<close>

record 'src os =
  os_Stat :: "string \<Rightarrow> error option"
  os_ReadDir :: "string \<Rightarrow> string list \<times> error option"
  ioutil_ReadDir :: "string \<Rightarrow> error + (string \<times> bool) list"
  os_ReadFile :: "string \<Rightarrow> error + 'src"
  os_Environ :: "string list"
  os_Getwd :: "error + string"
  path_Join :: "string \<Rightarrow> string \<Rightarrow> string"
  filepath_Join :: "string \<Rightarrow> string \<Rightarrow> string"

text \<open>
  The HCL library. \<open>'file\<close> is \<^verbatim>\<open>*hcl.File\<close>, \<open>'expr\<close> an \<^verbatim>\<open>hcl.Expression\<close>.
  \<^verbatim>\<open>JustAttributes\<close> returns a Go map from attribute names to attributes, here the pairs
  of name and expression in the order a \<^verbatim>\<open>range\<close> visits them.
  \<^verbatim>\<open>ParseHCLFile\<close> and \<^verbatim>\<open>ParseJSONFile\<close> are methods of an \<^verbatim>\<open>hclparse.Parser\<close>, which reads
  the file itself and keeps a table of files by name: the first component of the result is
  the file the call adds to that table, if any.
\<close>

record ('src, 'file, 'expr) hcl =
  ParseConfig :: "'src \<Rightarrow> string \<Rightarrow> 'file \<times> diagnostics"
  JustAttributes :: "'file \<Rightarrow> (string \<times> 'expr) list \<times> diagnostics"
  Expr_Value :: "'expr \<Rightarrow> cty_value \<times> diagnostics"
  ParseHCLFile :: "string \<Rightarrow> 'file option \<times> diagnostics"
  ParseJSONFile :: "string \<Rightarrow> 'file option \<times> diagnostics"

section \<open>The Parser\<close>

text \<open>
  The fields of \<^verbatim>\<open>Parser\<close>. \<open>tfEnvVars\<close> is a reference to a map (\<open>None\<close> is \<^verbatim>\<open>nil\<close>);
  \<open>inputVars\<close> is written by the options only and read by \<^verbatim>\<open>loadVars\<close>, so it is held by
  value (\<open>None\<close> is \<^verbatim>\<open>nil\<close>). \<open>blockBuilder\<close> is \<^verbatim>\<open>blockBuilder.NewBlock(b, nil, nil)\<close>,
  \<open>remoteVariablesLoader\<close> is the loader's \<^verbatim>\<open>Load\<close> (\<open>None\<close> is \<^verbatim>\<open>nil\<close>), \<open>moduleLoader\<close> is the
  path the module loader was made for, \<open>writeWarning\<close> says whether a warning sink is set.
  The spinner is not modelled.
\<close>

record ('raw, 'block) parser =
  initialPath :: string
  tfEnvVars :: "addr option"
  defaultVarFiles :: "string list"
  tfvarsPaths :: "string list"
  inputVars :: "vars option"
  stopOnHCLError :: bool
  workspaceName :: string
  moduleLoader :: "string option"
  blockBuilder :: "'raw \<Rightarrow> 'block"
  writeWarning :: bool
  remoteVariablesLoader :: "('block list \<Rightarrow> error + vars) option"

section \<open>Variable files\<close>

text \<open>
  \<^verbatim>\<open>loadVarFile\<close>: the diagnostics of \<^verbatim>\<open>ParseConfig\<close>, of \<^verbatim>\<open>JustAttributes\<close> and of every
  \<^verbatim>\<open>Expr.Value\<close> are discarded; the only error is that of \<^verbatim>\<open>os.ReadFile\<close>.
\<close>

definition loadVarFile ::
  "'src os \<Rightarrow> ('src, 'file, 'expr) hcl \<Rightarrow> string \<Rightarrow> error + vars" where
  "loadVarFile os hcl filename =
     (if filename = [] then Inr []
      else case os_ReadFile os filename of
        Inl err \<Rightarrow> Inl (CouldNotReadFile filename err)
      | Inr src \<Rightarrow>
          (let variableFile = fst (ParseConfig hcl src filename);
               attrs = fst (JustAttributes hcl variableFile)
           in Inr (fold (\<lambda>(name, expr) inputVars.
                      AList.update name (fst (Expr_Value hcl expr)) inputVars) attrs [])))"

definition loadAndCombineVars ::
  "'src os \<Rightarrow> ('src, 'file, 'expr) hcl \<Rightarrow> string \<Rightarrow> addr \<Rightarrow> state \<Rightarrow> error option \<times> state" where
  "loadAndCombineVars os hcl filename combinedVars s =
     (case loadVarFile os hcl filename of
        Inl err \<Rightarrow> (Some (FailedToLoadTFVars err), s)
      | Inr vars \<Rightarrow> (None, range_store vars combinedVars s))"

text \<open>The loop of \<^verbatim>\<open>loadVars\<close> over \<^verbatim>\<open>p.defaultVarFiles\<close>: a failure is logged and skipped.\<close>

fun loadDefaultVarFiles ::
  "'src os \<Rightarrow> ('src, 'file, 'expr) hcl \<Rightarrow> string list \<Rightarrow> addr \<Rightarrow> state \<Rightarrow> state" where
  "loadDefaultVarFiles os hcl [] combinedVars s = s"
| "loadDefaultVarFiles os hcl (name # names) combinedVars s =
     (case loadAndCombineVars os hcl name combinedVars s of
        (Some err, s') \<Rightarrow>
          loadDefaultVarFiles os hcl names combinedVars (Warnf (CouldNotLoadAutoVarFile name err) s')
      | (None, s') \<Rightarrow> loadDefaultVarFiles os hcl names combinedVars s')"

text \<open>The loop of \<^verbatim>\<open>loadVars\<close> over \<^verbatim>\<open>filenames\<close>: the first failure is returned.\<close>

fun loadFilenames ::
  "'src os \<Rightarrow> ('src, 'file, 'expr) hcl \<Rightarrow> string list \<Rightarrow> addr \<Rightarrow> state \<Rightarrow> error option \<times> state" where
  "loadFilenames os hcl [] combinedVars s = (None, s)"
| "loadFilenames os hcl (filename # filenames) combinedVars s =
     (case loadAndCombineVars os hcl filename combinedVars s of
        (Some err, s') \<Rightarrow> (Some err, s')
      | (None, s') \<Rightarrow> loadFilenames os hcl filenames combinedVars s')"

text \<open>
  \<^verbatim>\<open>loadVars\<close> returns the reference \<^verbatim>\<open>combinedVars\<close>, the error and the store. The map
  it returns is \<open>heap s' combinedVars\<close>.
\<close>

definition loadVars ::
  "'src os \<Rightarrow> ('src, 'file, 'expr) hcl \<Rightarrow> ('raw, 'block) parser \<Rightarrow> 'block list \<Rightarrow> string list
     \<Rightarrow> state \<Rightarrow> addr \<times> error option \<times> state" where
  "loadVars os hcl p blocks filenames s0 =
     (let (combinedVars, s1) = (case tfEnvVars p of Some a \<Rightarrow> (a, s0) | None \<Rightarrow> make_map s0) in
      case (case remoteVariablesLoader p of
              None \<Rightarrow> Inr s1
            | Some Load \<Rightarrow>
                (case Load blocks of
                   Inl err \<Rightarrow> Inl (err, Warnf (CouldNotLoadRemoteVars err) s1)
                 | Inr remoteVars \<Rightarrow> Inr (range_store remoteVars combinedVars s1))) of
        Inl (err, s2) \<Rightarrow> (combinedVars, Some err, s2)
      | Inr s2 \<Rightarrow>
          (let s3 = loadDefaultVarFiles os hcl (defaultVarFiles p) combinedVars s2 in
           case loadFilenames os hcl filenames combinedVars s3 of
             (Some err, s4) \<Rightarrow> (combinedVars, Some err, s4)
           | (None, s4) \<Rightarrow>
               (combinedVars, None,
                case inputVars p of None \<Rightarrow> s4 | Some vs \<Rightarrow> range_store vs combinedVars s4)))"

section \<open>Strings\<close>

text \<open>
  The functions of Go's \<^verbatim>\<open>strings\<close> package the parser calls, on byte strings.
  \<^verbatim>\<open>Split\<close> is \<^verbatim>\<open>strings.Split(s, sep)\<close> for a separator of one byte: a string with \<open>n\<close>
  separators gives \<open>n + 1\<close> pieces.
\<close>

definition HasPrefix :: "string \<Rightarrow> string \<Rightarrow> bool" where
  "HasPrefix s pre = (take (length pre) s = pre)"

definition HasSuffix :: "string \<Rightarrow> string \<Rightarrow> bool" where
  "HasSuffix s suf = (length suf \<le> length s \<and> drop (length s - length suf) s = suf)"

fun Split :: "string \<Rightarrow> char \<Rightarrow> string list" where
  "Split [] sep = [[]]"
| "Split (c # cs) sep =
     (if c = sep then [] # Split cs sep
      else (case Split cs sep of [] \<Rightarrow> [[c]] | piece # pieces \<Rightarrow> (c # piece) # pieces))"

fun Join :: "string list \<Rightarrow> string \<Rightarrow> string" where
  "Join [] sep = []"
| "Join [x] sep = x"
| "Join (x # y # ys) sep = x @ sep @ Join (y # ys) sep"

definition TrimRight :: "string \<Rightarrow> string \<Rightarrow> string" where
  "TrimRight s cutset = rev (dropWhile (\<lambda>c. List.member cutset c) (rev s))"

section \<open>Options\<close>

text \<open>
  An \<^verbatim>\<open>Option\<close> is a function that updates the Parser; here it also threads the store,
  since an option may make a map and log a warning.
\<close>

type_synonym ('raw, 'block) parser_option =
  "('raw, 'block) parser \<times> state \<Rightarrow> ('raw, 'block) parser \<times> state"

text \<open>The loop of \<^verbatim>\<open>OptionWithTFVarsPaths\<close>; \<open>relative\<close> is the slice built so far.\<close>

fun existingTFVarsPaths ::
  "'src os \<Rightarrow> string \<Rightarrow> string list \<Rightarrow> string list \<Rightarrow> state \<Rightarrow> string list \<times> state" where
  "existingTFVarsPaths os dir [] relative s = (relative, s)"
| "existingTFVarsPaths os dir (name # names) relative s =
     (let tfvp = path_Join os dir name in
      case os_Stat os tfvp of
        Some err \<Rightarrow> existingTFVarsPaths os dir names relative (Warnf (TFVarFileDoesNotExist tfvp) s)
      | None \<Rightarrow> existingTFVarsPaths os dir names (relative @ [tfvp]) s)"

definition OptionWithTFVarsPaths :: "'src os \<Rightarrow> string list \<Rightarrow> ('raw, 'block) parser_option" where
  "OptionWithTFVarsPaths os paths = (\<lambda>(p, s).
     let (relative, s') = existingTFVarsPaths os (initialPath p) paths [] s
     in (p\<lparr>tfvarsPaths := relative\<rparr>, s'))"

definition OptionStopOnHCLError :: "('raw, 'block) parser_option" where
  "OptionStopOnHCLError = (\<lambda>(p, s). (p\<lparr>stopOnHCLError := True\<rparr>, s))"

text \<open>One entry \<^verbatim>\<open>v\<close> of \<^verbatim>\<open>os.Environ()\<close> in the first loop of \<^verbatim>\<open>OptionWithTFEnvVars\<close>.\<close>

definition environEntry :: "addr \<Rightarrow> string \<Rightarrow> state \<Rightarrow> state" where
  "environEntry ctyVars v s =
     (if HasPrefix v ''TF_VAR_'' then
        (let pieces = Split (drop (length ''TF_VAR_'') v) CHR ''=''
         in if length pieces \<noteq> 2 then s
            else map_store ctyVars (pieces ! 0) (StringVal (pieces ! 1)) s)
      else s)"

text \<open>One pair of \<^verbatim>\<open>projectEnv\<close> in the second loop.\<close>

definition projectEnvEntry :: "addr \<Rightarrow> string \<times> string \<Rightarrow> state \<Rightarrow> state" where
  "projectEnvEntry ctyVars = (\<lambda>(k, v) s.
     if HasPrefix k ''TF_VAR_'' then map_store ctyVars (drop (length ''TF_VAR_'') k) (StringVal v) s
     else s)"

definition OptionWithTFEnvVars ::
  "'src os \<Rightarrow> (string \<times> string) list \<Rightarrow> ('raw, 'block) parser_option" where
  "OptionWithTFEnvVars os projectEnv = (\<lambda>(p, s).
     let (ctyVars, s1) = make_map s;
         s2 = fold (environEntry ctyVars) (os_Environ os) s1;
         s3 = fold (projectEnvEntry ctyVars) projectEnv s2
     in (p\<lparr>tfEnvVars := Some ctyVars\<rparr>, s3))"

definition planFlagVar :: "string \<Rightarrow> vars \<Rightarrow> vars" where
  "planFlagVar v m =
     (let pieces = Split v CHR ''='' in
      if length pieces \<noteq> 2 then m else AList.update (pieces ! 0) (StringVal (pieces ! 1)) m)"

definition OptionWithPlanFlagVars :: "string list \<Rightarrow> ('raw, 'block) parser_option" where
  "OptionWithPlanFlagVars vs = (\<lambda>(p, s).
     let m = (case inputVars p of None \<Rightarrow> [] | Some m \<Rightarrow> m)
     in (p\<lparr>inputVars := Some (fold planFlagVar vs m)\<rparr>, s))"

definition OptionWithInputVars :: "(string \<times> string) list \<Rightarrow> ('raw, 'block) parser_option" where
  "OptionWithInputVars vars = (\<lambda>(p, s).
     let m = (case inputVars p of None \<Rightarrow> [] | Some m \<Rightarrow> m)
     in (p\<lparr>inputVars := Some (fold (\<lambda>(k, v). AList.update k (StringVal v)) vars m)\<rparr>, s))"

text \<open>
  \<^verbatim>\<open>OptionWithRemoteVarLoader\<close>: \<open>newLoader\<close> stands for \<^verbatim>\<open>NewRemoteVariablesLoader\<close> applied
  to the client made from host and token.
\<close>

definition OptionWithRemoteVarLoader ::
  "(string \<Rightarrow> string \<Rightarrow> string \<Rightarrow> 'block list \<Rightarrow> error + vars) \<Rightarrow> string \<Rightarrow> string \<Rightarrow> string
     \<Rightarrow> ('raw, 'block) parser_option" where
  "OptionWithRemoteVarLoader newLoader host token localWorkspace = (\<lambda>(p, s).
     if host = [] \<or> token = [] then (p, s)
     else (p\<lparr>remoteVariablesLoader := Some (newLoader host token localWorkspace)\<rparr>, s))"

definition OptionWithWorkspaceName :: "string \<Rightarrow> ('raw, 'block) parser_option" where
  "OptionWithWorkspaceName name = (\<lambda>(p, s). (p\<lparr>workspaceName := name\<rparr>, s))"

definition OptionWithBlockBuilder :: "('raw \<Rightarrow> 'block) \<Rightarrow> ('raw, 'block) parser_option" where
  "OptionWithBlockBuilder b = (\<lambda>(p, s). (p\<lparr>blockBuilder := b\<rparr>, s))"

definition OptionWithWarningFunc :: "('raw, 'block) parser_option" where
  "OptionWithWarningFunc = (\<lambda>(p, s). (p\<lparr>writeWarning := True\<rparr>, s))"

section \<open>New\<close>

text \<open>
  \<open>newBlock\<close> is the default block builder. The error of \<^verbatim>\<open>os.ReadDir\<close> is dropped
  (\<^verbatim>\<open>infos, _ := os.ReadDir(initialPath)\<close>); \<^verbatim>\<open>New\<close> has no error result.
\<close>

definition autoVarFiles :: "'src os \<Rightarrow> string \<Rightarrow> string list" where
  "autoVarFiles os dir =
     (let autoVarsSuffix = ''.auto.tfvars'';
          infos = fst (os_ReadDir os dir)
      in map (path_Join os dir)
           (filter (\<lambda>name. HasSuffix name autoVarsSuffix \<or> HasSuffix name (autoVarsSuffix @ ''.json''))
              infos))"

definition New ::
  "'src os \<Rightarrow> ('raw \<Rightarrow> 'block) \<Rightarrow> string \<Rightarrow> ('raw, 'block) parser_option list \<Rightarrow> state
     \<Rightarrow> ('raw, 'block) parser \<times> state" where
  "New os newBlock dir options s =
     (let p = \<lparr>initialPath = dir, tfEnvVars = None, defaultVarFiles = [], tfvarsPaths = [],
                inputVars = None, stopOnHCLError = False, workspaceName = ''default'',
                moduleLoader = None, blockBuilder = newBlock, writeWarning = False,
                remoteVariablesLoader = None\<rparr>;
          defaultTfFile = path_Join os dir ''terraform.tfvars'';
          files1 = (if os_Stat os defaultTfFile = None then [defaultTfFile] else []);
          files2 = (if os_Stat os (defaultTfFile @ ''.json'') = None
                    then files1 @ [defaultTfFile @ ''.json''] else files1);
          files3 = files2 @ autoVarFiles os dir;
          (p', s') = fold (\<lambda>option ps. option ps) options (p\<lparr>defaultVarFiles := files3\<rparr>, s)
      in (p'\<lparr>moduleLoader := Some dir\<rparr>, s'))"

section \<open>Loading the directory\<close>

text \<open>
  The loop of \<^verbatim>\<open>loadDirectory\<close> over the entries of the directory. \<open>table\<close> is the file
  table of the \<^verbatim>\<open>hclparse.Parser\<close> (a Go map from file names to files), which the parse
  functions fill. The result of a parse function is used for its diagnostics only.
\<close>

fun loadDirectoryEntries ::
  "'src os \<Rightarrow> ('src, 'file, 'expr) hcl \<Rightarrow> string \<Rightarrow> bool \<Rightarrow> (string \<times> bool) list
     \<Rightarrow> (string \<times> 'file) list \<Rightarrow> state \<Rightarrow> (error + (string \<times> 'file) list) \<times> state" where
  "loadDirectoryEntries os hcl fullPath stop [] table s = (Inr table, s)"
| "loadDirectoryEntries os hcl fullPath stop ((name, isDir) # infos) table s =
     (if isDir then loadDirectoryEntries os hcl fullPath stop infos table s
      else
        (let parseFunc1 = (if HasSuffix name ''.tf'' then Some (ParseHCLFile hcl) else None);
             parseFunc = (if HasSuffix name ''.tf.json'' then Some (ParseJSONFile hcl) else parseFunc1)
         in case parseFunc of
              None \<Rightarrow> loadDirectoryEntries os hcl fullPath stop infos table s
            | Some parse \<Rightarrow>
                (let path = filepath_Join os fullPath name;
                     (added, diag) = parse path;
                     table' = (case added of None \<Rightarrow> table | Some file \<Rightarrow> AList.update path file table)
                 in if diag \<noteq> [] \<and> HasErrors diag then
                      (if stop then (Inl (DiagnosticsError diag), s)
                       else loadDirectoryEntries os hcl fullPath stop infos table'
                              (Warnf (SkippingFileParse path diag) s))
                    else loadDirectoryEntries os hcl fullPath stop infos table' s)))"

definition loadDirectory ::
  "'src os \<Rightarrow> ('src, 'file, 'expr) hcl \<Rightarrow> string \<Rightarrow> bool \<Rightarrow> state
     \<Rightarrow> (error + 'file list) \<times> state" where
  "loadDirectory os hcl fullPath stop s =
     (case ioutil_ReadDir os fullPath of
        Inl err \<Rightarrow> (Inl err, s)
      | Inr fileInfos \<Rightarrow>
          (case loadDirectoryEntries os hcl fullPath stop fileInfos [] s of
             (Inl err, s') \<Rightarrow> (Inl err, s')
           | (Inr table, s') \<Rightarrow> (Inr (map snd table), s')))"

section \<open>Blocks, modules, evaluation\<close>

text \<open>
  The collaborators of the Parser that are not part of \<^verbatim>\<open>parser.go\<close>:
  \<^verbatim>\<open>loadBlocksFromFile\<close>, \<^verbatim>\<open>ModuleLoader.Load\<close> (by the path the loader was made for) and the
  Evaluator, by the arguments of \<^verbatim>\<open>NewEvaluator\<close>. \<open>'raw\<close> is \<^verbatim>\<open>*hcl.Block\<close>, \<open>'block\<close> is
  \<^verbatim>\<open>*Block\<close>, \<open>'manifest\<close> the module manifest and \<open>'module\<close> is \<^verbatim>\<open>*Module\<close>.
\<close>

record ('raw, 'block, 'manifest) evaluator =
  ev_Name :: string
  ev_Source :: string
  ev_Blocks :: "'block list"
  ev_RootPath :: string
  ev_ModulePath :: string
  ev_workingDir :: string
  ev_inputVars :: vars
  ev_moduleMetadata :: 'manifest
  ev_workspace :: string
  ev_blockBuilder :: "'raw \<Rightarrow> 'block"

record ('file, 'raw, 'block, 'manifest, 'module) collaborators =
  loadBlocksFromFile :: "'file \<Rightarrow> error + 'raw list"
  moduleLoader_Load :: "string \<Rightarrow> error + 'manifest"
  MissingVars :: "('raw, 'block, 'manifest) evaluator \<Rightarrow> string list"
  Run :: "('raw, 'block, 'manifest) evaluator \<Rightarrow> error + 'module"

text \<open>The loop of \<^verbatim>\<open>parseDirectoryFiles\<close>; \<open>blocks\<close> is the slice built so far.\<close>

fun parseFiles ::
  "('file \<Rightarrow> error + 'raw list) \<Rightarrow> ('raw, 'block) parser \<Rightarrow> 'file list \<Rightarrow> 'block list \<Rightarrow> state
     \<Rightarrow> (error + 'block list) \<times> state" where
  "parseFiles load p [] blocks s = (Inr blocks, s)"
| "parseFiles load p (file # files) blocks s =
     (case load file of
        Inl err \<Rightarrow>
          (if stopOnHCLError p then (Inl err, s)
           else parseFiles load p files blocks (Warnf (SkippingFileBlocks err) s))
      | Inr fileBlocks \<Rightarrow> parseFiles load p files (blocks @ map (blockBuilder p) fileBlocks) s)"

definition parseDirectoryFiles ::
  "('file, 'raw, 'block, 'manifest, 'module) collaborators \<Rightarrow> ('raw, 'block) parser \<Rightarrow> 'file list
     \<Rightarrow> state \<Rightarrow> (error + 'block list) \<times> state" where
  "parseDirectoryFiles col p files s = parseFiles (loadBlocksFromFile col) p files [] s"

definition missingVarsMessage :: "string list \<Rightarrow> string" where
  "missingVarsMessage v =
     ''Input values were not provided for following Terraform variables: ''
       @ TrimRight (Join v '', '') '', '' @ ''. ''
       @ ''Use --terraform-var-file or --terraform-var to specify them.''"

text \<open>
  \<^verbatim>\<open>ParseDirectory\<close> after the blocks are known to be non-empty: variables, modules,
  evaluation.
\<close>

definition evaluateBlocks ::
  "'src os \<Rightarrow> ('src, 'file, 'expr) hcl \<Rightarrow> ('file, 'raw, 'block, 'manifest, 'module) collaborators
     \<Rightarrow> ('raw, 'block) parser \<Rightarrow> 'block list \<Rightarrow> state \<Rightarrow> (error + 'module) \<times> state" where
  "evaluateBlocks os hcl col p blocks s =
     (case loadVars os hcl p blocks (tfvarsPaths p) s of
        (vars, Some err, s1) \<Rightarrow> (Inl err, s1)
      | (vars, None, s1) \<Rightarrow>
          (case moduleLoader_Load col (case moduleLoader p of None \<Rightarrow> initialPath p | Some d \<Rightarrow> d) of
             Inl err \<Rightarrow> (Inl (ErrorLoadingModules err), s1)
           | Inr modulesManifest \<Rightarrow>
               (case os_Getwd os of
                  Inl err \<Rightarrow> (Inl (ErrorWorkingDirectory err), s1)
                | Inr workingDir \<Rightarrow>
                    (let ev = \<lparr>ev_Name = [], ev_Source = [], ev_Blocks = blocks,
                                ev_RootPath = initialPath p, ev_ModulePath = initialPath p,
                                ev_workingDir = workingDir, ev_inputVars = heap s1 vars,
                                ev_moduleMetadata = modulesManifest,
                                ev_workspace = workspaceName p,
                                ev_blockBuilder = blockBuilder p\<rparr>;
                         v = MissingVars col ev;
                         s2 = (if length v > 0 \<and> writeWarning p
                               then s1\<lparr>written := written s1 @ [missingVarsMessage v]\<rparr> else s1)
                     in case Run col ev of
                          Inl err \<Rightarrow> (Inl err, s2)
                        | Inr root \<Rightarrow> (Inr root, s2)))))"

definition ParseDirectory ::
  "'src os \<Rightarrow> ('src, 'file, 'expr) hcl \<Rightarrow> ('file, 'raw, 'block, 'manifest, 'module) collaborators
     \<Rightarrow> ('raw, 'block) parser \<Rightarrow> state \<Rightarrow> (error + 'module) \<times> state" where
  "ParseDirectory os hcl col p s =
     (case loadDirectory os hcl (initialPath p) (stopOnHCLError p) s of
        (Inl err, s1) \<Rightarrow> (Inl err, s1)
      | (Inr files, s1) \<Rightarrow>
          (case parseDirectoryFiles col p files s1 of
             (Inl err, s2) \<Rightarrow> (Inl err, s2)
           | (Inr blocks, s2) \<Rightarrow>
               (if length blocks = 0 then (Inl NoValidTerraformFiles, s2)
                else evaluateBlocks os hcl col p blocks s2)))"

section \<open>The sources of variables as mappings\<close>

text \<open>
  What \<^verbatim>\<open>loadVars\<close> returns: the mapping held by the map it returns a reference to, and
  its error.
\<close>

definition resolved :: "addr \<times> error option \<times> state \<Rightarrow> (string \<rightharpoonup> cty_value)" where
  "resolved r = map_of (heap (snd (snd r)) (fst r))"

definition failure :: "addr \<times> error option \<times> state \<Rightarrow> error option" where
  "failure r = fst (snd r)"




text \<open>The variables the Parser starts from: the map \<open>tfEnvVars\<close> refers to, none when it is \<^verbatim>\<open>nil\<close>.\<close>

definition startVars :: "('raw, 'block) parser \<Rightarrow> state \<Rightarrow> (string \<rightharpoonup> cty_value)" where
  "startVars p s = (case tfEnvVars p of None \<Rightarrow> Map.empty | Some a \<Rightarrow> map_of (heap s a))"

definition remoteVars :: "('raw, 'block) parser \<Rightarrow> 'block list \<Rightarrow> (string \<rightharpoonup> cty_value)" where
  "remoteVars p blocks =
     (case remoteVariablesLoader p of
        None \<Rightarrow> Map.empty
      | Some Load \<Rightarrow> (case Load blocks of Inl err \<Rightarrow> Map.empty | Inr vs \<Rightarrow> map_of vs))"

definition remoteError :: "('raw, 'block) parser \<Rightarrow> 'block list \<Rightarrow> error option" where
  "remoteError p blocks =
     (case remoteVariablesLoader p of
        None \<Rightarrow> None
      | Some Load \<Rightarrow> (case Load blocks of Inl err \<Rightarrow> Some err | Inr vs \<Rightarrow> None))"


definition fileError ::
  "'src os \<Rightarrow> ('src, 'file, 'expr) hcl \<Rightarrow> string \<Rightarrow> error option" where
  "fileError os hcl name =
     (case loadVarFile os hcl name of Inl err \<Rightarrow> Some err | Inr vs \<Rightarrow> None)"


definition readable :: "'src os \<Rightarrow> string \<Rightarrow> bool" where
  "readable os name =
     (name = [] \<or> (case os_ReadFile os name of Inl err \<Rightarrow> False | Inr src \<Rightarrow> True))"



text \<open>The pieces of \<^verbatim>\<open>loadVars\<close>, named: the map it starts from and the two maps it ranges over.\<close>

definition startMap :: "('raw, 'block) parser \<Rightarrow> state \<Rightarrow> addr \<times> state" where
  "startMap p s = (case tfEnvVars p of Some a \<Rightarrow> (a, s) | None \<Rightarrow> make_map s)"

definition remoteList :: "('raw, 'block) parser \<Rightarrow> 'block list \<Rightarrow> vars" where
  "remoteList p blocks =
     (case remoteVariablesLoader p of
        None \<Rightarrow> []
      | Some Load \<Rightarrow> (case Load blocks of Inl err \<Rightarrow> [] | Inr vs \<Rightarrow> vs))"

definition directList :: "('raw, 'block) parser \<Rightarrow> vars" where
  "directList p = (case inputVars p of None \<Rightarrow> [] | Some vs \<Rightarrow> vs)"


text \<open>
  The explicit variable files: \<^verbatim>\<open>loadVarFile\<close> fails on a file only when \<^verbatim>\<open>os.ReadFile\<close>
  does, and the loop over \<^verbatim>\<open>filenames\<close> returns the first failure.
\<close>

definition readError :: "'src os \<Rightarrow> string \<Rightarrow> error option" where
  "readError os name =
     (if name = [] then None
      else case os_ReadFile os name of
        Inl err \<Rightarrow> Some (FailedToLoadTFVars (CouldNotReadFile name err))
      | Inr src \<Rightarrow> None)"

fun firstReadError :: "'src os \<Rightarrow> string list \<Rightarrow> error option" where
  "firstReadError os [] = None"
| "firstReadError os (name # names) =
     (case readError os name of Some err \<Rightarrow> Some err | None \<Rightarrow> firstReadError os names)"

text \<open>
  Resolution as a function of the sources alone. A variable file is given by what
  \<^verbatim>\<open>loadVarFile\<close> makes of it, as a mapping; the default files that fail are skipped, the
  first explicit file that fails ends the merge, and the direct input is merged only when
  no file failed.
\<close>

definition fileResult ::
  "'src os \<Rightarrow> ('src, 'file, 'expr) hcl \<Rightarrow> string \<Rightarrow> error + (string \<rightharpoonup> cty_value)" where
  "fileResult os hcl name =
     (case loadVarFile os hcl name of Inl err \<Rightarrow> Inl err | Inr vs \<Rightarrow> Inr (map_of vs))"

fun mergeDefaults :: "(error + (string \<rightharpoonup> cty_value)) list \<Rightarrow> (string \<rightharpoonup> cty_value)" where
  "mergeDefaults [] = Map.empty"
| "mergeDefaults (Inl err # rs) = mergeDefaults rs"
| "mergeDefaults (Inr m # rs) = m ++ mergeDefaults rs"

fun mergeExplicit ::
  "(error + (string \<rightharpoonup> cty_value)) list \<Rightarrow> error option \<times> (string \<rightharpoonup> cty_value)" where
  "mergeExplicit [] = (None, Map.empty)"
| "mergeExplicit (Inl err # rs) = (Some (FailedToLoadTFVars err), Map.empty)"
| "mergeExplicit (Inr m # rs) = (fst (mergeExplicit rs), m ++ snd (mergeExplicit rs))"

definition resolve ::
  "(string \<rightharpoonup> cty_value) \<Rightarrow> error option \<Rightarrow> (string \<rightharpoonup> cty_value)
     \<Rightarrow> (error + (string \<rightharpoonup> cty_value)) list \<Rightarrow> (error + (string \<rightharpoonup> cty_value)) list
     \<Rightarrow> (string \<rightharpoonup> cty_value) \<Rightarrow> error option \<times> (string \<rightharpoonup> cty_value)" where
  "resolve start remoteErr remote defaults explicits direct =
     (case remoteErr of
        Some err \<Rightarrow> (Some err, start)
      | None \<Rightarrow>
          (let m = start ++ remote ++ mergeDefaults defaults ++ snd (mergeExplicit explicits)
           in case fst (mergeExplicit explicits) of
                Some err \<Rightarrow> (Some err, m)
              | None \<Rightarrow> (None, m ++ direct)))"

text \<open>
  The entries of the directory. \<open>parseEntry\<close> is the call \<^verbatim>\<open>parseFunc(path)\<close> of
  \<^verbatim>\<open>loadDirectory\<close> for an entry that is not a directory: none when the name has neither
  suffix. \<^verbatim>\<open>loadDirectory\<close> takes the files from the table of the \<^verbatim>\<open>hclparse.Parser\<close> and
  not from the results of the calls, so what a skipped file contributes is what the
  library keeps of it. An entry is unparseable when its parse reports an error and the
  library keeps no block of it: no file, or a file that \<^verbatim>\<open>loadBlocksFromFile\<close> finds no
  block in.
\<close>

definition parseFuncFor ::
  "('src, 'file, 'expr) hcl \<Rightarrow> string \<Rightarrow> (string \<Rightarrow> 'file option \<times> diagnostics) option" where
  "parseFuncFor hcl name =
     (if HasSuffix name ''.tf.json'' then Some (ParseJSONFile hcl)
      else if HasSuffix name ''.tf'' then Some (ParseHCLFile hcl)
      else None)"

definition parseEntry ::
  "'src os \<Rightarrow> ('src, 'file, 'expr) hcl \<Rightarrow> string \<Rightarrow> string \<Rightarrow> ('file option \<times> diagnostics) option" where
  "parseEntry os hcl dir name =
     (case parseFuncFor hcl name of
        None \<Rightarrow> None
      | Some parse \<Rightarrow> Some (parse (filepath_Join os dir name)))"

definition parseDiag :: "'src os \<Rightarrow> ('src, 'file, 'expr) hcl \<Rightarrow> string \<Rightarrow> string \<Rightarrow> diagnostics" where
  "parseDiag os hcl dir name =
     (case parseEntry os hcl dir name of None \<Rightarrow> [] | Some (added, diag) \<Rightarrow> diag)"

definition keepsNoBlocks :: "('file \<Rightarrow> error + 'raw list) \<Rightarrow> 'file option \<Rightarrow> bool" where
  "keepsNoBlocks load added =
     (case added of
        None \<Rightarrow> True
      | Some file \<Rightarrow> (case load file of Inl err \<Rightarrow> True | Inr fileBlocks \<Rightarrow> fileBlocks = []))"

definition unparseable ::
  "'src os \<Rightarrow> ('src, 'file, 'expr) hcl \<Rightarrow> ('file \<Rightarrow> error + 'raw list) \<Rightarrow> string
     \<Rightarrow> string \<times> bool \<Rightarrow> bool" where
  "unparseable os hcl load dir = (\<lambda>(name, isDir).
     \<not> isDir \<and>
     (case parseEntry os hcl dir name of
        None \<Rightarrow> False
      | Some (added, diag) \<Rightarrow> HasErrors diag \<and> keepsNoBlocks load added))"

text \<open>The first two steps of \<^verbatim>\<open>New\<close>: the primary variable files \<^verbatim>\<open>os.Stat\<close> finds.\<close>

definition primaryVarFiles :: "'src os \<Rightarrow> string \<Rightarrow> string list" where
  "primaryVarFiles os dir =
     (let defaultTfFile = path_Join os dir ''terraform.tfvars''
      in (if os_Stat os defaultTfFile = None then [defaultTfFile] else [])
         @ (if os_Stat os (defaultTfFile @ ''.json'') = None then [defaultTfFile @ ''.json''] else []))"

text \<open>The directory the module loader of the Parser was made for.\<close>

definition moduleDir :: "('raw, 'block) parser \<Rightarrow> string" where
  "moduleDir p = (case moduleLoader p of None \<Rightarrow> initialPath p | Some d \<Rightarrow> d)"
section \<open>A concrete world\<close>

text \<open>
  A small file system and HCL library on which the theorems below are applied. The content
  of a file is what the library makes of it: its attributes, each with the value and the
  diagnostics of its expression, and the diagnostics of the parse. The directory \<open>/proj\<close>
  holds \<open>terraform.tfvars\<close> with \<open>region = "us-east-1"\<close> and \<open>a.auto.tfvars\<close> with
  \<open>region = "us-west-2"\<close>, a malformed \<open>bad.tfvars\<close> and \<open>x.tfvars\<close> with one malformed
  expression; \<open>/bad\<close> holds two files that do not parse; \<open>/mixed\<close> holds one that does not
  and one that does; \<open>/missing\<close> does not exist; \<open>/locked\<close> holds \<open>terraform.tfvars\<close>
  and may be searched but not read.
\<close>

type_synonym expr0 = "cty_value \<times> diagnostics"
type_synonym file0 = "(string \<times> expr0) list"
type_synonym src0 = "file0 \<times> diagnostics"

definition join0 :: "string \<Rightarrow> string \<Rightarrow> string" where
  "join0 dir name = dir @ ''/'' @ name"

definition noent :: error where
  "noent = OSError ''no such file or directory''"

definition eacces :: error where
  "eacces = OSError ''permission denied''"

definition syntaxError :: diagnostics where
  "syntaxError = [(DiagError, ''Argument or block definition required'')]"

definition os0 :: "src0 os" where
  "os0 = \<lparr>
     os_Stat = (\<lambda>path.
       if path = ''/proj/terraform.tfvars'' \<or> path = ''/proj/a.auto.tfvars''
          \<or> path = ''/proj/bad.tfvars'' \<or> path = ''/proj/x.tfvars''
          \<or> path = ''/locked/terraform.tfvars''
       then None else Some noent),
     os_ReadDir = (\<lambda>path.
       if path = ''/proj''
       then ([''a.auto.tfvars'', ''bad.tfvars'', ''main.tf'', ''terraform.tfvars'', ''x.tfvars''], None)
       else if path = ''/bad'' then ([''a.tf'', ''b.tf.json''], None)
       else if path = ''/mixed'' then ([''bad.tf'', ''good.tf''], None)
       else if path = ''/locked'' then ([], Some eacces)
       else ([], Some noent)),
     ioutil_ReadDir = (\<lambda>path.
       if path = ''/proj''
       then Inr [(''a.auto.tfvars'', False), (''bad.tfvars'', False), (''main.tf'', False),
                 (''terraform.tfvars'', False), (''x.tfvars'', False)]
       else if path = ''/bad'' then Inr [(''a.tf'', False), (''b.tf.json'', False)]
       else if path = ''/mixed'' then Inr [(''bad.tf'', False), (''good.tf'', False)]
       else if path = ''/locked'' then Inl eacces
       else Inl noent),
     os_ReadFile = (\<lambda>path.
       if path = ''/proj/terraform.tfvars''
       then Inr ([(''region'', (StringVal ''us-east-1'', []))], [])
       else if path = ''/proj/a.auto.tfvars''
       then Inr ([(''region'', (StringVal ''us-west-2'', []))], [])
       else if path = ''/proj/bad.tfvars''
       then Inr ([], syntaxError)
       else if path = ''/proj/x.tfvars''
       then Inr ([(''count'', (NumberVal 2, [])),
                  (''name'', (DynamicVal, [(DiagError, ''Variables not allowed'')])),
                  (''debug'', (BoolVal True, []))], [])
       else if path = ''/locked/terraform.tfvars''
       then Inr ([(''region'', (StringVal ''eu-north-1'', []))], [])
       else Inl noent),
     os_Environ = [''HOME=/root'', ''TF_VAR_zone=a'', ''TF_VAR_tags=a=b''],
     os_Getwd = Inr ''/proj'',
     path_Join = join0,
     filepath_Join = join0\<rparr>"

definition hcl0 :: "(src0, file0, expr0) hcl" where
  "hcl0 = \<lparr>
     ParseConfig = (\<lambda>src filename. src),
     JustAttributes = (\<lambda>file. (file, [])),
     Expr_Value = (\<lambda>expr. expr),
     ParseHCLFile = (\<lambda>path.
       if path = ''/proj/main.tf'' then (Some [(''variable.region'', (NilVal, []))], [])
       else if path = ''/mixed/good.tf'' then (Some [(''resource.aws_instance.web'', (NilVal, []))], [])
       else (None, syntaxError)),
     ParseJSONFile = (\<lambda>path. (Some [], syntaxError))\<rparr>"

text \<open>Collaborators: a file's blocks are named by its entries; the evaluator returns its blocks.\<close>

definition col0 :: "(file0, string, string, string, string list) collaborators" where
  "col0 = \<lparr>
     loadBlocksFromFile = (\<lambda>file. Inr (map fst file)),
     moduleLoader_Load = (\<lambda>dir. Inr ''manifest''),
     MissingVars = (\<lambda>ev. []),
     Run = (\<lambda>ev. Inr (ev_Blocks ev))\<rparr>"

definition state0 :: state where
  "state0 = \<lparr>heap = (\<lambda>a. []), nextAddr = 0, logged = [], written = []\<rparr>"

definition newBlock0 :: "string \<Rightarrow> string" where
  "newBlock0 b = b"


text \<open>
  Parsers on this world. \<open>projA\<close> is the project with the direct input
  \<open>region = eu-west-1\<close> and the project environment \<open>TF_VAR_zone = b\<close>; \<open>projB\<close> has no direct
  input; \<open>projR\<close> has a remote loader that fails; \<open>projC\<close> is given two explicit variable
  files, one that does not exist and one that is malformed; \<open>projX\<close> and \<open>projY\<close> have
  the same sources, given by different options and held in different stores.
\<close>

definition failingLoad :: "string list \<Rightarrow> error + vars" where
  "failingLoad blocks = Inl (RemoteError ''401 Unauthorized'')"

definition projA0 :: "(string, string) parser \<times> state" where
  "projA0 = New os0 newBlock0 ''/proj'' [OptionWithInputVars [(''region'', ''eu-west-1'')]] state0"

definition projA :: "(string, string) parser \<times> state" where
  "projA = OptionWithTFEnvVars os0 [(''TF_VAR_zone'', ''b'')] projA0"

definition projB0 :: "(string, string) parser \<times> state" where
  "projB0 = New os0 newBlock0 ''/proj'' [] state0"


definition projR :: "(string, string) parser" where
  "projR = (fst projA)\<lparr>remoteVariablesLoader := Some failingLoad\<rparr>"

definition projC :: "(string, string) parser \<times> state" where
  "projC = OptionWithTFVarsPaths os0 [''nope.tfvars'', ''bad.tfvars''] projB0"

definition projX :: "(string, string) parser \<times> state" where
  "projX = New os0 newBlock0 ''/proj''
     [OptionWithInputVars [(''count'', ''3'')], OptionWithTFVarsPaths os0 [''x.tfvars'']] state0"

definition projY :: "(string, string) parser \<times> state" where
  "projY = New os0 newBlock0 ''/proj''
     [OptionWithTFVarsPaths os0 [''x.tfvars''], OptionWithPlanFlagVars [''count=3'']]
     (state0\<lparr>heap := (\<lambda>a. [(''stale'', NilVal)]), nextAddr := 7\<rparr>)"

definition projBad :: "(string, string) parser \<times> state" where
  "projBad = New os0 newBlock0 ''/bad'' [] state0"

definition projStrict :: "(string, string) parser \<times> state" where
  "projStrict = New os0 newBlock0 ''/bad'' [OptionStopOnHCLError] state0"

definition projMixed :: "(string, string) parser \<times> state" where
  "projMixed = New os0 newBlock0 ''/mixed'' [] state0"

definition projMissing :: "(string, string) parser \<times> state" where
  "projMissing = New os0 newBlock0 ''/missing'' [] state0"

definition projLocked :: "(string, string) parser \<times> state" where
  "projLocked = New os0 newBlock0 ''/locked'' [] state0"
section \<open>The store and the loops\<close>



lemma range_store_heap_other: "b \<noteq> a \<Longrightarrow> heap (range_store src a s) b = heap s b"
  unfolding range_store_def by (induction src arbitrary: s) (auto simp: map_store_def)

lemma range_store_logged: "logged (range_store src a s) = logged s"
  unfolding range_store_def by (induction src arbitrary: s) (auto simp: map_store_def)

lemma range_store_nextAddr: "nextAddr (range_store src a s) = nextAddr s"
  unfolding range_store_def by (induction src arbitrary: s) (auto simp: map_store_def)

lemma range_store_written: "written (range_store src a s) = written s"
  unfolding range_store_def by (induction src arbitrary: s) (auto simp: map_store_def)


lemma range_store_distinct:
  "distinct (map fst (heap s a)) \<Longrightarrow> distinct (map fst (heap (range_store src a s) a))"
  unfolding range_store_def
  by (induction src arbitrary: s) (auto simp: map_store_def distinct_update)



lemma loadVarFile_readable: "readable os name \<longleftrightarrow> (\<exists>vs. loadVarFile os hcl name = Inr vs)"
  by (auto simp: loadVarFile_def readable_def Let_def split: if_splits sum.splits)


lemma loadAndCombineVars_frame:
  "logged (snd (loadAndCombineVars os hcl name a s)) = logged s"
  "nextAddr (snd (loadAndCombineVars os hcl name a s)) = nextAddr s"
  "written (snd (loadAndCombineVars os hcl name a s)) = written s"
  "b \<noteq> a \<Longrightarrow> heap (snd (loadAndCombineVars os hcl name a s)) b = heap s b"
  by (auto simp: loadAndCombineVars_def range_store_logged range_store_nextAddr range_store_written
        range_store_heap_other split: sum.splits)

lemma loadAndCombineVars_error:
  "fst (loadAndCombineVars os hcl name a s) =
     (case loadVarFile os hcl name of Inl err \<Rightarrow> Some (FailedToLoadTFVars err) | Inr vs \<Rightarrow> None)"
  by (auto simp: loadAndCombineVars_def split: sum.splits)



lemma loadFilenames_ok:
  "fst (loadFilenames os hcl names a s) = None \<longleftrightarrow> list_all (readable os) names"
proof (induction names arbitrary: s)
  case Nil
  then show ?case by simp
next
  case (Cons name names)
  obtain e s1 where r: "loadAndCombineVars os hcl name a s = (e, s1)"
    by (cases "loadAndCombineVars os hcl name a s")
  have e: "e = None \<longleftrightarrow> readable os name"
    using loadAndCombineVars_error [of os hcl name a s] loadVarFile_readable [of os name hcl]
    by (auto simp: r split: sum.splits)
  show ?case
    using e by (cases e) (simp_all add: r Cons.IH)
qed

lemma make_map_heap:
  "make_map s = (a, s') \<Longrightarrow> a = nextAddr s \<and> heap s' a = [] \<and> logged s' = logged s"
  by (auto simp: make_map_def)

lemma loadVars_addr:
  "fst (loadVars os hcl p blocks filenames s) = (case tfEnvVars p of None \<Rightarrow> nextAddr s | Some a \<Rightarrow> a)"
  by (auto simp: loadVars_def make_map_def Let_def split: option.splits sum.splits prod.splits)

lemma range_store_Nil: "range_store [] a s = s"
  by (simp add: range_store_def)

lemma loadVars_unfold:
  "loadVars os hcl p blocks filenames s =
     (let c = fst (startMap p s); s1 = snd (startMap p s) in
      case remoteError p blocks of
        Some err \<Rightarrow> (c, Some err, Warnf (CouldNotLoadRemoteVars err) s1)
      | None \<Rightarrow>
          (let s2 = range_store (remoteList p blocks) c s1;
               s3 = loadDefaultVarFiles os hcl (defaultVarFiles p) c s2;
               r = loadFilenames os hcl filenames c s3
           in case fst r of
                Some err \<Rightarrow> (c, Some err, snd r)
              | None \<Rightarrow> (c, None, range_store (directList p) c (snd r))))"
  by (simp add: loadVars_def startMap_def remoteError_def remoteList_def directList_def
      range_store_Nil Let_def split: option.splits sum.splits prod.splits)

lemma loadVars_error_None:
  "fst (snd (loadVars os hcl p blocks filenames s)) = None \<longleftrightarrow>
     remoteError p blocks = None \<and> list_all (readable os) filenames"
  using loadFilenames_ok [of os hcl filenames "fst (startMap p s)"
      "loadDefaultVarFiles os hcl (defaultVarFiles p) (fst (startMap p s))
         (range_store (remoteList p blocks) (fst (startMap p s)) (snd (startMap p s)))"]
  by (auto simp: loadVars_unfold Let_def split: option.splits)

lemma startMap_vars: "map_of (heap (snd (startMap p s)) (fst (startMap p s))) = startVars p s"
  by (simp add: startMap_def startVars_def make_map_def split: option.splits)











lemma Split_no_sep: "sep \<notin> set cs \<Longrightarrow> Split cs sep = [cs]"
  by (induction cs) auto

lemma Split_one_sep:
  "sep \<notin> set name \<Longrightarrow> sep \<notin> set val \<Longrightarrow> Split (name @ sep # val) sep = [name, val]"
  by (induction name) (auto simp: Split_no_sep)

lemma length_Split: "length (Split cs sep) = Suc (count_list cs sep)"
  by (induction cs) (auto split: list.splits)


lemma loadVars_remote_error:
  "remoteError p blocks = Some err \<Longrightarrow>
   loadVars os hcl p blocks filenames s
     = (fst (startMap p s), Some err, Warnf (CouldNotLoadRemoteVars err) (snd (startMap p s)))"
  by (simp add: loadVars_unfold Let_def)

lemma startMap_logged: "logged (snd (startMap p s)) = logged s"
  by (simp add: startMap_def make_map_def split: option.splits)



section \<open>The claims\<close>

subsection \<open>A remote loader that fails\<close>

text \<open>
  C3: when a remote variables loader is configured and its \<^verbatim>\<open>Load\<close> fails, \<^verbatim>\<open>loadVars\<close>
  returns that error, logs a warning, and the map it returns holds the variables merged so
  far, which are those the Parser started from (the variables of the environment); the
  files and the direct input are not merged. \<^verbatim>\<open>ParseDirectory\<close>, from the point where the
  blocks are known, returns the same error.
\<close>

theorem loadVars_remote_failure:
  assumes "remoteVariablesLoader p = Some Load" and "Load blocks = Inl err"
  shows "failure (loadVars os hcl p blocks filenames s) = Some err
       \<and> resolved (loadVars os hcl p blocks filenames s) = startVars p s
       \<and> logged (snd (snd (loadVars os hcl p blocks filenames s)))
           = logged s @ [CouldNotLoadRemoteVars err]
       \<and> fst (evaluateBlocks os hcl col p blocks s) = Inl err"
proof -
  have e: "remoteError p blocks = Some err"
    using assms by (simp add: remoteError_def)
  have r: "\<And>fs. loadVars os hcl p blocks fs s
      = (fst (startMap p s), Some err, Warnf (CouldNotLoadRemoteVars err) (snd (startMap p s)))"
    by (rule loadVars_remote_error [OF e])
  show ?thesis
    by (simp add: r failure_def resolved_def Warnf_def startMap_vars startMap_logged
        evaluateBlocks_def)
qed

theorem loadVars_remote_failure_witness:
  "remoteVariablesLoader projR = Some failingLoad
   \<and> failingLoad [] = Inl (RemoteError ''401 Unauthorized'')
   \<and> failure (loadVars os0 hcl0 projR [] (tfvarsPaths projR) (snd projA))
       = Some (RemoteError ''401 Unauthorized'')
   \<and> resolved (loadVars os0 hcl0 projR [] (tfvarsPaths projR) (snd projA)) ''zone''
       = Some (StringVal ''b'')
   \<and> resolved (loadVars os0 hcl0 projR [] (tfvarsPaths projR) (snd projA)) ''region'' = None
   \<and> fst (evaluateBlocks os0 hcl0 col0 projR [] (snd projA)) = Inl (RemoteError ''401 Unauthorized'')"
proof -
  have h1: "remoteVariablesLoader projR = Some failingLoad" by (simp add: projR_def)
  have h2: "failingLoad [] = Inl (RemoteError ''401 Unauthorized'')" by (simp add: failingLoad_def)
  have z: "startVars projR (snd projA) ''zone'' = Some (StringVal ''b'')" by code_simp
  have g: "startVars projR (snd projA) ''region'' = None" by code_simp
  show ?thesis
    using loadVars_remote_failure [OF h1 h2, of os0 hcl0 "tfvarsPaths projR" "snd projA" col0] h1 h2 z g
    by simp
qed

subsection \<open>Precedence\<close>


end
